theory Spec2Isabelle
  imports Main "HOL-Library.DAList"
begin

section \<open>Python values, exceptions and dictionaries\<close>

text \<open>
  The exceptions that \<^verbatim>\<open>dosaku/core/agent.py\<close> raises itself or lets pass. A call that
  raises keeps the state it had reached, so an outcome carries the state on both sides.
  The \<^verbatim>\<open>print\<close> of \<^verbatim>\<open>learn\<close> has no effect on the state and is left out.
\<close>

datatype error =
    ModuleForTaskNotFound
  | ServicePermissionRequired
  | ExecutorPermissionRequired
  | ValueError
  | KeyError
  | IndexError
  | AttributeError
  | OtherError string

datatype 's outcome = Returned 's | Raised error 's

primrec state_of :: "'s outcome \<Rightarrow> 's" where
  "state_of (Returned s) = s"
| "state_of (Raised e s) = s"

primrec raised :: "'s outcome \<Rightarrow> error option" where
  "raised (Returned s) = None"
| "raised (Raised e s) = Some e"

text \<open>
  A Python \<^verbatim>\<open>dict\<close> keeps its keys unique and in insertion order: \<^verbatim>\<open>d[k] = v\<close> replaces
  the value of a present key in place and appends an absent one, which is what
  \<^const>\<open>DAList.update\<close> does on an association list with distinct keys.
\<close>

definition dict_keys :: "('k, 'v) alist \<Rightarrow> 'k list" where
  "dict_keys d = map fst (DAList.impl_of d)"

definition has_key :: "('k, 'v) alist \<Rightarrow> 'k \<Rightarrow> bool" where
  "has_key d k = (k \<in> set (dict_keys d))"

text \<open>
  A value read from a module or from a short-term module: a function object with its
  \<^verbatim>\<open>__name__\<close>, or an object that has no \<^verbatim>\<open>__name__\<close> attribute. The number tells
  objects apart.
\<close>

datatype member = Fn (fn_name: string) (fn_id: nat) | Obj (obj_id: nat)

primrec py_name :: "member \<Rightarrow> error + string" where
  "py_name (Fn n i) = Inr n"
| "py_name (Obj i) = Inl AttributeError"

text \<open>The test \<^verbatim>\<open>'__' in s\<close>: two consecutive underscores somewhere in \<open>s\<close>.\<close>

fun contains_dunder :: "string \<Rightarrow> bool" where
  "contains_dunder (a # b # cs) =
     ((a = CHR ''_'' \<and> b = CHR ''_'') \<or> contains_dunder (b # cs))"
| "contains_dunder cs = False"

section \<open>The agent\<close>

text \<open>
  \<^verbatim>\<open>class _Actor(Actor)\<close> is created anew by every \<^verbatim>\<open>learn\<close>; the classes created so far
  are numbered, and an Actor object knows its class and has its own instance dictionary.

  Modelled from the spec: the base class \<^verbatim>\<open>Actor\<close> (\<^verbatim>\<open>dosaku.core.actor\<close>, absent from the
  sources): an object that only receives what \<^verbatim>\<open>learn\<close> attaches, so a new Actor and its
  new class start with nothing attached and creating them does not raise.
\<close>

record actor =
  actor_type :: nat
  actor_dict :: "(string, member) alist"

text \<open>
  Modelled from the spec: the class \<^verbatim>\<open>ShortTermModule\<close> (imported from \<^verbatim>\<open>dosaku\<close>, absent
  from the sources): a name and an ordered mapping from action names to callables, the
  result of \<^verbatim>\<open>api()\<close>. Short-term modules are objects of the caller; the agent holds
  their address.
\<close>

record short_term_module =
  stm_name :: string
  stm_api :: "(string, member) alist"

datatype bound = ActorV actor | StmRef nat

text \<open>
  The fields that \<^verbatim>\<open>Agent.__init__\<close> assigns, and \<open>attrs\<close>: the attributes that
  \<^verbatim>\<open>learn\<close> and \<^verbatim>\<open>memorize\<close> bind by name with \<^verbatim>\<open>setattr(self, ...)\<close>. The two are
  kept apart: the names bound with \<^verbatim>\<open>setattr\<close> are names of tasks and of short-term
  modules, taken to differ from the names that the class \<^verbatim>\<open>Agent\<close> defines itself (its
  fields, properties and methods), which \<open>attrs\<close> does not hold.
\<close>

datatype agent =
  Agent (agent_name: string)
        (known: "(string, string list) alist")
        (memorized: "(string, string list) alist")
        (allow_services: bool)
        (allow_executors: bool)
        (subagents: "(string, agent) alist")
        (attrs: "(string, bound) alist")

definition new_agent :: "string \<Rightarrow> bool \<Rightarrow> bool \<Rightarrow> agent" where
  "new_agent name services executors =
     Agent name DAList.empty DAList.empty services executors
       DAList.empty DAList.empty"

primrec set_known :: "(string, string list) alist \<Rightarrow> agent \<Rightarrow> agent" where
  "set_known d (Agent n k m s e sub a) = Agent n d m s e sub a"

primrec set_memorized :: "(string, string list) alist \<Rightarrow> agent \<Rightarrow> agent" where
  "set_memorized d (Agent n k m s e sub a) = Agent n k d s e sub a"

primrec set_allow_services :: "bool \<Rightarrow> agent \<Rightarrow> agent" where
  "set_allow_services b (Agent n k m s e sub a) = Agent n k m b e sub a"


primrec set_subagents :: "(string, agent) alist \<Rightarrow> agent \<Rightarrow> agent" where
  "set_subagents d (Agent n k m s e sub a) = Agent n k m s e d a"

primrec set_attrs :: "(string, bound) alist \<Rightarrow> agent \<Rightarrow> agent" where
  "set_attrs d (Agent n k m s e sub a) = Agent n k m s e sub d"

definition py_setattr :: "agent \<Rightarrow> string \<Rightarrow> bound \<Rightarrow> agent" where
  "py_setattr ag n v = set_attrs (DAList.update n v (attrs ag)) ag"

definition py_getattr :: "agent \<Rightarrow> string \<Rightarrow> bound option" where
  "py_getattr ag n = DAList.lookup (attrs ag) n"

definition known_tasks :: "agent \<Rightarrow> string list" where
  "known_tasks ag = dict_keys (known ag)"


definition services_enabled :: "agent \<Rightarrow> bool" where
  "services_enabled ag = allow_services ag"

definition executors_enabled :: "agent \<Rightarrow> bool" where
  "executors_enabled ag = allow_executors ag"





subsection \<open>Sub-agents\<close>



text \<open>\<^verbatim>\<open>del d[k]\<close> raises \<^verbatim>\<open>KeyError\<close> when \<open>k\<close> is not a key of \<open>d\<close>.\<close>

definition remove_subagent :: "agent \<Rightarrow> string \<Rightarrow> agent outcome" where
  "remove_subagent self name =
     (if has_key (subagents self) name
      then Returned (set_subagents (DAList.delete name (subagents self)) self)
      else Raised KeyError self)"

subsection \<open>Memorizing a short-term module\<close>

text \<open>
  The \<^verbatim>\<open>actions\<close> argument is \<^verbatim>\<open>None\<close>, a string or a list of strings;
  \<^verbatim>\<open>list(s)\<close> of a string is the list of its characters, each a string of length one
  (a \<open>char\<close> here stands for one character of the Python string).
  \<open>stms\<close> is the store of short-term module objects and \<open>r\<close> the address passed in.
\<close>

datatype actions_arg = ActionsStr string | ActionsList "string list"

definition py_list_of_str :: "string \<Rightarrow> string list" where
  "py_list_of_str s = map (\<lambda>c. [c]) s"

definition memorize ::
  "(nat \<Rightarrow> short_term_module) \<Rightarrow> agent \<Rightarrow> nat \<Rightarrow> actions_arg option \<Rightarrow> agent" where
  "memorize stms self r actions =
     (let stm = stms r;
          self1 = py_setattr self (stm_name stm) (StmRef r);
          actions1 = (case actions of
                        None \<Rightarrow> dict_keys (stm_api stm)
                      | Some (ActionsStr s) \<Rightarrow> py_list_of_str s
                      | Some (ActionsList l) \<Rightarrow> l)
      in set_memorized (DAList.update (stm_name stm) actions1 (memorized self1)) self1)"

section \<open>The registries and \<^verbatim>\<open>learn\<close>\<close>

text \<open>
  The class attributes \<^verbatim>\<open>task_hub\<close> and \<^verbatim>\<open>module_manager\<close> hold objects of \<^verbatim>\<open>dosaku\<close>
  whose classes the sources do not contain. The agent only calls them, so they are
  parameters here: the task hub by its answers (the keys of \<^verbatim>\<open>tasks\<close>, \<^verbatim>\<open>api(task)\<close>,
  \<^verbatim>\<open>registered_modules(task)\<close>, which is \<^verbatim>\<open>None\<close> or a list), the module manager by its
  two methods over a state \<open>'m\<close> of its own. Either may raise. The task hub does not
  change during a call of the agent, and \<^verbatim>\<open>get_module_attr\<close> reads the module manager
  without changing it. The keyword arguments of \<^verbatim>\<open>learn\<close> are passed on as they are.
\<close>

record task_hub =
  hub_tasks :: "string list"
  hub_api :: "string \<Rightarrow> error + string list"
  hub_registered_modules :: "string \<Rightarrow> error + string list option"

type_synonym kwargs = "(string \<times> string) list"

record 'm module_manager =
  load_module :: "'m \<Rightarrow> string \<Rightarrow> bool \<Rightarrow> bool \<Rightarrow> bool \<Rightarrow> kwargs \<Rightarrow> 'm outcome"
  get_module_attr :: "'m \<Rightarrow> string \<Rightarrow> string \<Rightarrow> error + member"

text \<open>
  What agents share: the dictionaries of the \<^verbatim>\<open>_Actor\<close> classes created so far (class
  \<open>c\<close> exists when \<open>c < class_count\<close>) and the state of the module manager.
\<close>

record 'm world =
  class_dicts :: "nat \<Rightarrow> (string, member) alist"
  class_count :: nat
  manager :: 'm

text \<open>The \<^verbatim>\<open>task\<close> argument is a string or a \<^verbatim>\<open>Task\<close> object, which has a name.\<close>

datatype task_arg = ByName string | ByTask string

primrec task_name :: "task_arg \<Rightarrow> string" where
  "task_name (ByName n) = n"
| "task_name (ByTask n) = n"

text \<open>Lines 112 to 116: \<^verbatim>\<open>modules[0]\<close> of an empty list raises \<^verbatim>\<open>IndexError\<close>.\<close>

definition resolve_module :: "task_hub \<Rightarrow> string \<Rightarrow> string option \<Rightarrow> error + string" where
  "resolve_module hub task module =
     (case module of
        Some m \<Rightarrow> Inr m
      | None \<Rightarrow>
          (case hub_registered_modules hub task of
             Inl e \<Rightarrow> Inl e
           | Inr None \<Rightarrow> Inl ModuleForTaskNotFound
           | Inr (Some modules) \<Rightarrow>
               (case modules of [] \<Rightarrow> Inl IndexError | m # rest \<Rightarrow> Inr m)))"

text \<open>\<^verbatim>\<open>class _Actor(Actor)\<close>: a class that did not exist before, with nothing attached.\<close>

definition new_actor_class :: "'m world \<Rightarrow> nat \<times> 'm world" where
  "new_actor_class w =
     (class_count w,
      w\<lparr>class_dicts := (class_dicts w)(class_count w := DAList.empty),
        class_count := Suc (class_count w)\<rparr>)"

definition new_actor :: "nat \<Rightarrow> actor" where
  "new_actor c = \<lparr>actor_type = c, actor_dict = DAList.empty\<rparr>"

text \<open>
  The loop of lines 136 to 143 over the remaining action names. \<^verbatim>\<open>getattr(self, task)\<close>
  is the Actor that line 135 has bound; any other result ends the loop with
  \<^verbatim>\<open>AttributeError\<close>.
\<close>

fun attach ::
  "'m module_manager \<Rightarrow> string \<Rightarrow> string \<Rightarrow> string list \<Rightarrow> 'm world \<times> agent \<Rightarrow>
   ('m world \<times> agent) outcome" where
  "attach mm module task [] s = Returned s"
| "attach mm module task (method # rest) (w, self) =
     (case get_module_attr mm (manager w) module method of
        Inl e \<Rightarrow> Raised e (w, self)
      | Inr module_attr \<Rightarrow>
          (case py_name module_attr of
             Inl e \<Rightarrow> Raised e (w, self)
           | Inr nm \<Rightarrow>
               (case py_getattr self task of
                  Some (ActorV a) \<Rightarrow>
                    if contains_dunder nm
                    then attach mm module task rest
                           (w\<lparr>class_dicts := (class_dicts w)
                                (actor_type a :=
                                   DAList.update method module_attr
                                     (class_dicts w (actor_type a)))\<rparr>,
                            self)
                    else attach mm module task rest
                           (w,
                            py_setattr self task
                              (ActorV (a\<lparr>actor_dict :=
                                 DAList.update method module_attr (actor_dict a)\<rparr>)))
                | _ \<Rightarrow> Raised AttributeError (w, self))))"

definition learn ::
  "task_hub \<Rightarrow> 'm module_manager \<Rightarrow> 'm world \<times> agent \<Rightarrow> task_arg \<Rightarrow> string option \<Rightarrow>
   bool \<Rightarrow> kwargs \<Rightarrow> ('m world \<times> agent) outcome" where
  "learn hub mm s task module force_relearn kwargs =
     (case s of (w, self) \<Rightarrow>
        (case resolve_module hub (task_name task) module of
           Inl e \<Rightarrow> Raised e (w, self)
         | Inr module1 \<Rightarrow>
             (case load_module mm (manager w) module1 force_relearn
                     (services_enabled self) (executors_enabled self) kwargs of
                Raised e m \<Rightarrow> Raised e (w\<lparr>manager := m\<rparr>, self)
              | Returned m \<Rightarrow>
                  (case new_actor_class (w\<lparr>manager := m\<rparr>) of (c, w1) \<Rightarrow>
                     (let self1 = py_setattr self (task_name task) (ActorV (new_actor c))
                      in case hub_api hub (task_name task) of
                           Inl e \<Rightarrow> Raised e (w1, self1)
                         | Inr methods \<Rightarrow>
                             (case attach mm module1 (task_name task) methods (w1, self1) of
                                Raised e s2 \<Rightarrow> Raised e s2
                              | Returned (w2, self2) \<Rightarrow>
                                  (case hub_api hub (task_name task) of
                                     Inl e \<Rightarrow> Raised e (w2, self2)
                                   | Inr actions \<Rightarrow>
                                       Returned
                                         (w2,
                                          set_known
                                            (DAList.update (task_name task) actions
                                               (known self2))
                                            self2))))))))"


text \<open>What an Actor shows under a name: its class's dictionary and its own.\<close>

definition type_level :: "'m world \<Rightarrow> actor \<Rightarrow> string \<Rightarrow> member option" where
  "type_level w a n = DAList.lookup (class_dicts w (actor_type a)) n"

definition instance_level :: "actor \<Rightarrow> string \<Rightarrow> member option" where
  "instance_level a n = DAList.lookup (actor_dict a) n"

definition bound_actor :: "agent \<Rightarrow> string \<Rightarrow> actor option" where
  "bound_actor self task =
     (case py_getattr self task of Some (ActorV a) \<Rightarrow> Some a | _ \<Rightarrow> None)"

text \<open>
  Where one pass of the loop puts the attribute it fetches for an action name: on the
  class when the fetched object's \<^verbatim>\<open>__name__\<close> contains \<^verbatim>\<open>__\<close>, on the instance
  otherwise; nowhere when the fetch or the \<^verbatim>\<open>__name__\<close> raises.
\<close>

definition placement ::
  "'m module_manager \<Rightarrow> 'm \<Rightarrow> string \<Rightarrow> string \<Rightarrow> (bool \<times> member) option" where
  "placement mm m module method =
     (case get_module_attr mm m module method of
        Inl e \<Rightarrow> None
      | Inr f \<Rightarrow> (case py_name f of Inl e \<Rightarrow> None | Inr nm \<Rightarrow> Some (contains_dunder nm, f)))"

text \<open>
  The class dictionary \<open>D\<close> and the instance dictionary \<open>I\<close> that the whole loop over
  \<open>ms\<close> leaves, starting from \<open>D0\<close> and \<open>I0\<close>.
\<close>

definition attached ::
  "'m module_manager \<Rightarrow> 'm \<Rightarrow> string \<Rightarrow> string list \<Rightarrow>
   (string, member) alist \<Rightarrow> (string, member) alist \<Rightarrow>
   (string, member) alist \<Rightarrow> (string, member) alist \<Rightarrow> bool" where
  "attached mm m module ms D0 I0 D I \<longleftrightarrow>
     (\<forall>n \<in> set ms. placement mm m module n \<noteq> None) \<and>
     (\<forall>n. DAList.lookup D n =
            (if n \<in> set ms \<and> (\<exists>f. placement mm m module n = Some (True, f))
             then map_option snd (placement mm m module n)
             else DAList.lookup D0 n)) \<and>
     (\<forall>n. DAList.lookup I n =
            (if n \<in> set ms \<and> (\<exists>f. placement mm m module n = Some (False, f))
             then map_option snd (placement mm m module n)
             else DAList.lookup I0 n))"

text \<open>
  The world and the agent once \<^verbatim>\<open>learn\<close> has loaded the module (manager state \<open>m\<close>),
  created the class and bound the Actor: the new class has dictionary \<open>D\<close>, the Actor
  has instance dictionary \<open>I\<close>.
\<close>

definition learned_world :: "'m world \<Rightarrow> 'm \<Rightarrow> (string, member) alist \<Rightarrow> 'm world" where
  "learned_world w m D =
     w\<lparr>manager := m,
       class_dicts := (class_dicts w)(class_count w := D),
       class_count := Suc (class_count w)\<rparr>"

definition learned_agent :: "'m world \<Rightarrow> agent \<Rightarrow> string \<Rightarrow> (string, member) alist \<Rightarrow> agent" where
  "learned_agent w ag task I =
     py_setattr ag task (ActorV \<lparr>actor_type = class_count w, actor_dict = I\<rparr>)"

subsection \<open>The module registry of the spec\<close>

text \<open>
  Modelled from the spec: the Module Registry (the object \<^verbatim>\<open>module_manager\<close>, absent from
  the sources), section 4.2. A declared module says which permissions it requires and
  how it is constructed from the configuration; construction may fail with an error of
  its own. \<^verbatim>\<open>load_module\<close> returns a cached instance as it is unless a reload is forced;
  otherwise it checks the permissions, services first, caching nothing when one is
  missing, and then constructs and caches. The spec names no error for a module that was
  never declared; \<open>OtherError\<close> stands for it. \<^verbatim>\<open>get_module_attr\<close> fails with
  \<^verbatim>\<open>ModuleForTaskNotFound\<close> when the module is not loaded and, as \<^verbatim>\<open>getattr\<close> does,
  with \<^verbatim>\<open>AttributeError\<close> when the instance has no such attribute.
\<close>

record module_decl =
  requires_services :: bool
  requires_executors :: bool
  construct :: "kwargs \<Rightarrow> error + (string, member) alist"

record registry =
  declared :: "(string, module_decl) alist"
  cache :: "(string, (string, member) alist) alist"

definition spec_load_module ::
  "registry \<Rightarrow> string \<Rightarrow> bool \<Rightarrow> bool \<Rightarrow> bool \<Rightarrow> kwargs \<Rightarrow> registry outcome" where
  "spec_load_module reg name force_reload allow_s allow_e kw =
     (if has_key (cache reg) name \<and> \<not> force_reload then Returned reg
      else (case DAList.lookup (declared reg) name of
              None \<Rightarrow> Raised (OtherError ''undeclared module'') reg
            | Some d \<Rightarrow>
                if requires_services d \<and> \<not> allow_s then Raised ServicePermissionRequired reg
                else if requires_executors d \<and> \<not> allow_e
                then Raised ExecutorPermissionRequired reg
                else (case construct d kw of
                        Inl e \<Rightarrow> Raised e reg
                      | Inr inst \<Rightarrow>
                          Returned (reg\<lparr>cache := DAList.update name inst (cache reg)\<rparr>))))"

definition spec_get_module_attr :: "registry \<Rightarrow> string \<Rightarrow> string \<Rightarrow> error + member" where
  "spec_get_module_attr reg name action =
     (case DAList.lookup (cache reg) name of
        None \<Rightarrow> Inl ModuleForTaskNotFound
      | Some inst \<Rightarrow>
          (case DAList.lookup inst action of
             None \<Rightarrow> Inl AttributeError
           | Some v \<Rightarrow> Inr v))"

definition spec_manager :: "registry module_manager" where
  "spec_manager = \<lparr>load_module = spec_load_module, get_module_attr = spec_get_module_attr\<rparr>"

subsection \<open>A small installation\<close>

text \<open>
  The task \<^verbatim>\<open>Echo\<close> with the actions \<^verbatim>\<open>reply\<close> and \<^verbatim>\<open>__call__\<close> and the task \<^verbatim>\<open>Idle\<close>,
  registered with no module yet. \<^verbatim>\<open>EchoImpl\<close> needs no permission; \<^verbatim>\<open>NetEcho\<close> is a
  service; \<^verbatim>\<open>HalfEcho\<close> has \<^verbatim>\<open>reply\<close> but no \<^verbatim>\<open>__call__\<close>; in \<^verbatim>\<open>AliasEcho\<close> the class
  body says \<^verbatim>\<open>reply = __call__\<close>, so both attributes are the one function named
  \<^verbatim>\<open>__call__\<close>.
\<close>

definition echo_hub :: task_hub where
  "echo_hub =
     \<lparr>hub_tasks = [''Echo'', ''Idle''],
      hub_api = (\<lambda>t. if t = ''Echo'' then Inr [''reply'', ''__call__'']
                     else if t = ''Idle'' then Inr [] else Inl KeyError),
      hub_registered_modules =
        (\<lambda>t. if t = ''Echo'' then Inr (Some [''EchoImpl'', ''NetEcho''])
              else if t = ''Idle'' then Inr (Some []) else Inr None)\<rparr>"

definition dict_of :: "('k \<times> 'v) list \<Rightarrow> ('k, 'v) alist" where
  "dict_of kvs = foldl (\<lambda>d (k, v). DAList.update k v d) DAList.empty kvs"

definition echo_methods :: "(string, member) alist" where
  "echo_methods = dict_of [(''reply'', Fn ''reply'' 1), (''__call__'', Fn ''__call__'' 2)]"

definition echo_decls :: "(string, module_decl) alist" where
  "echo_decls = dict_of
     [(''EchoImpl'', \<lparr>requires_services = False, requires_executors = False,
                      construct = (\<lambda>kw. Inr echo_methods)\<rparr>),
      (''NetEcho'', \<lparr>requires_services = True, requires_executors = False,
                     construct = (\<lambda>kw. Inr echo_methods)\<rparr>),
      (''HalfEcho'', \<lparr>requires_services = False, requires_executors = False,
                      construct = (\<lambda>kw. Inr (dict_of [(''reply'', Fn ''reply'' 3)]))\<rparr>),
      (''AliasEcho'', \<lparr>requires_services = False, requires_executors = False,
                       construct = (\<lambda>kw. Inr (dict_of
                         [(''reply'', Fn ''__call__'' 4), (''__call__'', Fn ''__call__'' 4)]))\<rparr>)]"

definition echo_world :: "registry world" where
  "echo_world =
     \<lparr>class_dicts = (\<lambda>c. DAList.empty), class_count = 0,
      manager = \<lparr>declared = echo_decls, cache = DAList.empty\<rparr>\<rparr>"

text \<open>The same installation after an agent with services enabled has loaded \<^verbatim>\<open>NetEcho\<close>.\<close>

definition net_world :: "registry world" where
  "net_world =
     \<lparr>class_dicts = (\<lambda>c. DAList.empty), class_count = 0,
      manager = \<lparr>declared = echo_decls,
                 cache = dict_of [(''NetEcho'', echo_methods)]\<rparr>\<rparr>"

text \<open>A parent agent with services enabled and one sub-agent, \<^verbatim>\<open>x\<close>.\<close>

definition family :: agent where
  "family =
     set_subagents (DAList.update ''x'' (new_agent ''x'' True False) DAList.empty)
       (new_agent ''Agent'' True False)"

text \<open>
  A store of short-term modules: at every address the module \<^verbatim>\<open>scratchpad\<close> whose
  \<^verbatim>\<open>api()\<close> is \<^verbatim>\<open>{"foo": fn1, "bar": fn2}\<close>.
\<close>

definition scratch_store :: "nat \<Rightarrow> short_term_module" where
  "scratch_store r =
     \<lparr>stm_name = ''scratchpad'',
      stm_api = dict_of [(''foo'', Fn ''fn1'' 1), (''bar'', Fn ''fn2'' 2)]\<rparr>"

text \<open>An agent with both permission flags disabled that has learned nothing yet.\<close>

definition novice :: agent where
  "novice = new_agent ''A'' False False"

section \<open>Basic facts\<close>

lemma set_known_sel [simp]:
  "agent_name (set_known d ag) = agent_name ag"
  "known (set_known d ag) = d"
  "memorized (set_known d ag) = memorized ag"
  "allow_services (set_known d ag) = allow_services ag"
  "allow_executors (set_known d ag) = allow_executors ag"
  "subagents (set_known d ag) = subagents ag"
  "attrs (set_known d ag) = attrs ag"
  by (cases ag; simp)+

lemma set_memorized_sel [simp]:
  "agent_name (set_memorized d ag) = agent_name ag"
  "known (set_memorized d ag) = known ag"
  "memorized (set_memorized d ag) = d"
  "allow_services (set_memorized d ag) = allow_services ag"
  "allow_executors (set_memorized d ag) = allow_executors ag"
  "subagents (set_memorized d ag) = subagents ag"
  "attrs (set_memorized d ag) = attrs ag"
  by (cases ag; simp)+

lemma set_allow_services_sel [simp]:
  "agent_name (set_allow_services b ag) = agent_name ag"
  "known (set_allow_services b ag) = known ag"
  "memorized (set_allow_services b ag) = memorized ag"
  "allow_services (set_allow_services b ag) = b"
  "allow_executors (set_allow_services b ag) = allow_executors ag"
  "subagents (set_allow_services b ag) = subagents ag"
  "attrs (set_allow_services b ag) = attrs ag"
  by (cases ag; simp)+

lemma set_subagents_sel [simp]:
  "agent_name (set_subagents d ag) = agent_name ag"
  "known (set_subagents d ag) = known ag"
  "memorized (set_subagents d ag) = memorized ag"
  "allow_services (set_subagents d ag) = allow_services ag"
  "allow_executors (set_subagents d ag) = allow_executors ag"
  "subagents (set_subagents d ag) = d"
  "attrs (set_subagents d ag) = attrs ag"
  by (cases ag; simp)+

lemma set_attrs_sel [simp]:
  "agent_name (set_attrs d ag) = agent_name ag"
  "known (set_attrs d ag) = known ag"
  "memorized (set_attrs d ag) = memorized ag"
  "allow_services (set_attrs d ag) = allow_services ag"
  "allow_executors (set_attrs d ag) = allow_executors ag"
  "subagents (set_attrs d ag) = subagents ag"
  "attrs (set_attrs d ag) = d"
  by (cases ag; simp)+

lemma new_agent_sel [simp]:
  "agent_name (new_agent n s e) = n"
  "known (new_agent n s e) = DAList.empty"
  "memorized (new_agent n s e) = DAList.empty"
  "allow_services (new_agent n s e) = s"
  "allow_executors (new_agent n s e) = e"
  "subagents (new_agent n s e) = DAList.empty"
  "attrs (new_agent n s e) = DAList.empty"
  by (simp_all add: new_agent_def)

lemma dict_keys_empty [simp]: "dict_keys DAList.empty = []"
  by (simp add: dict_keys_def empty.rep_eq)

lemma dict_keys_update:
  "dict_keys (DAList.update k v d) =
     (if k \<in> set (dict_keys d) then dict_keys d else dict_keys d @ [k])"
  by (simp add: dict_keys_def update.rep_eq update_keys)

lemma set_dict_keys_update [simp]:
  "set (dict_keys (DAList.update k v d)) = insert k (set (dict_keys d))"
  by (auto simp: dict_keys_update)

lemma distinct_dict_keys [simp]: "distinct (dict_keys d)"
  by (simp add: dict_keys_def)

lemma set_dict_keys_delete [simp]:
  "set (dict_keys (DAList.delete k d)) = set (dict_keys d) - {k}"
  by (simp add: dict_keys_def delete.rep_eq delete_keys)

lemma has_key_lookup: "has_key d k \<longleftrightarrow> DAList.lookup d k \<noteq> None"
  by (simp add: has_key_def dict_keys_def lookup.rep_eq map_of_eq_None_iff)



lemma contains_dunder_iff: "contains_dunder s \<longleftrightarrow> (\<exists>p q. s = p @ ''__'' @ q)"
proof (induction s rule: contains_dunder.induct)
  case (1 a b cs)
  show ?case
  proof
    assume "contains_dunder (a # b # cs)"
    then consider "a = CHR ''_''" "b = CHR ''_''" | "contains_dunder (b # cs)" by auto
    then show "\<exists>p q. a # b # cs = p @ ''__'' @ q"
    proof cases
      case 1
      then have "a # b # cs = [] @ ''__'' @ cs" by simp
      then show ?thesis by blast
    next
      case 2
      with "1.IH" obtain p q where "b # cs = p @ ''__'' @ q" by blast
      then have "a # b # cs = (a # p) @ ''__'' @ q" by simp
      then show ?thesis by blast
    qed
  next
    assume "\<exists>p q. a # b # cs = p @ ''__'' @ q"
    then obtain p q where pq: "a # b # cs = p @ ''__'' @ q" by blast
    show "contains_dunder (a # b # cs)"
    proof (cases p)
      case Nil
      with pq show ?thesis by simp
    next
      case (Cons x p')
      with pq have "b # cs = p' @ ''__'' @ q" by simp
      then have "\<exists>p q. b # cs = p @ ''__'' @ q" by blast
      with "1.IH" have "contains_dunder (b # cs)" by simp
      then show ?thesis by simp
    qed
  qed
qed (auto simp: Cons_eq_append_conv)

lemma lookup_None_keys: "DAList.lookup d k = None \<longleftrightarrow> k \<notin> set (dict_keys d)"
  by (simp add: dict_keys_def lookup.rep_eq map_of_eq_None_iff)

lemma py_setattr_sel [simp]:
  "agent_name (py_setattr ag n v) = agent_name ag"
  "known (py_setattr ag n v) = known ag"
  "memorized (py_setattr ag n v) = memorized ag"
  "allow_services (py_setattr ag n v) = allow_services ag"
  "allow_executors (py_setattr ag n v) = allow_executors ag"
  "subagents (py_setattr ag n v) = subagents ag"
  "attrs (py_setattr ag n v) = DAList.update n v (attrs ag)"
  by (simp_all add: py_setattr_def)

section \<open>Sub-agents: collisions, removal, inherited flags\<close>



lemma remove_subagent_frees:
  "remove_subagent p name = Returned p' \<Longrightarrow> name \<notin> set (dict_keys (subagents p'))"
  by (auto simp: remove_subagent_def split: if_splits)

lemma dict_update_empty_delete:
  "DAList.delete k (DAList.update k v DAList.empty) = DAList.empty"
  by (simp add: alist_eq_iff delete.rep_eq update.rep_eq empty.rep_eq)



text \<open>
  Claim C10. \<^verbatim>\<open>remove_subagent(name)\<close> with a name that is not a key of \<^verbatim>\<open>subagents\<close>
  raises \<^verbatim>\<open>KeyError\<close> and leaves the parent, its sub-agent mapping included, as it was.
  So the operation is not idempotent: after a removal that returned, removing the same
  name again raises.
\<close>

theorem remove_subagent_absent:
  "(name \<notin> set (dict_keys (subagents p)) \<longrightarrow>
      remove_subagent p name = Raised KeyError p \<and>
      subagents (state_of (remove_subagent p name)) = subagents p) \<and>
   (remove_subagent q child = Returned q1 \<longrightarrow>
      remove_subagent q1 child = Raised KeyError q1)"
proof (intro conjI impI)
  assume absent: "name \<notin> set (dict_keys (subagents p))"
  then show "remove_subagent p name = Raised KeyError p"
    by (simp add: remove_subagent_def has_key_def)
  from absent show "subagents (state_of (remove_subagent p name)) = subagents p"
    by (simp add: remove_subagent_def has_key_def)
next
  assume "remove_subagent q child = Returned q1"
  then have "child \<notin> set (dict_keys (subagents q1))"
    by (rule remove_subagent_frees)
  then show "remove_subagent q1 child = Raised KeyError q1"
    by (simp add: remove_subagent_def has_key_def)
qed

text \<open>
  Claim C10, at the parent with the one sub-agent \<^verbatim>\<open>x\<close>: removing \<^verbatim>\<open>y\<close> raises
  \<^verbatim>\<open>KeyError\<close> and changes nothing; removing \<^verbatim>\<open>x\<close> returns, and removing it once more
  raises.
\<close>

theorem remove_subagent_absent_witness:
  "''y'' \<notin> set (dict_keys (subagents family)) \<and>
   remove_subagent family ''y'' = Raised KeyError family \<and>
   remove_subagent family ''x'' = Returned (new_agent ''Agent'' True False) \<and>
   remove_subagent (new_agent ''Agent'' True False) ''x'' =
     Raised KeyError (new_agent ''Agent'' True False)"
proof -
  have h1: "''y'' \<notin> set (dict_keys (subagents family))"
    by (simp add: family_def)
  have h2: "remove_subagent family ''x'' = Returned (new_agent ''Agent'' True False)"
    by (simp add: family_def remove_subagent_def has_key_def dict_update_empty_delete)
       (simp add: new_agent_def)
  from remove_subagent_absent
    [of "''y''" family family "''x''" "new_agent ''Agent'' True False"] h1 h2
  show ?thesis by simp
qed

section \<open>Memorizing\<close>


lemma memorize_memorized:
  "memorized (memorize stms ag r actions) =
     DAList.update (stm_name (stms r))
       (case actions of
          None \<Rightarrow> dict_keys (stm_api (stms r))
        | Some (ActionsStr s) \<Rightarrow> py_list_of_str s
        | Some (ActionsList l) \<Rightarrow> l)
       (memorized ag)"
  by (simp add: memorize_def Let_def)



text \<open>
  Claim C9. \<^verbatim>\<open>memorize(stm, actions)\<close> with a string as \<^verbatim>\<open>actions\<close> records for
  \<^verbatim>\<open>stm.name\<close> the list of the string's characters, one string of length one for each,
  in order: as many entries as the string has characters, so unless the string has exactly
  one character the recorded list is not the one-element list holding the string.
\<close>

theorem memorize_string_actions:
  "DAList.lookup (memorized (memorize stms ag r (Some (ActionsStr s)))) (stm_name (stms r)) =
     Some (map (\<lambda>c. [c]) s) \<and>
   length (map (\<lambda>c. [c]) s) = length s \<and>
   (length s \<noteq> 1 \<longrightarrow>
      DAList.lookup (memorized (memorize stms ag r (Some (ActionsStr s)))) (stm_name (stms r))
        \<noteq> Some [s])"
proof -
  have "map (\<lambda>c. [c]) s \<noteq> [s]" if "length s \<noteq> 1"
  proof
    assume "map (\<lambda>c. [c]) s = [s]"
    then have "length (map (\<lambda>c. [c]) s) = length [s]" by simp
    with that show False by simp
  qed
  then show ?thesis
    by (simp add: memorize_memorized py_list_of_str_def)
qed

text \<open>
  Claim C9, at \<^verbatim>\<open>actions='foo'\<close>: the recorded list is \<^verbatim>\<open>['f', 'o', 'o']\<close>, not
  \<^verbatim>\<open>['foo']\<close>.
\<close>

theorem memorize_string_actions_witness:
  "length ''foo'' \<noteq> 1 \<and>
   DAList.lookup
     (memorized (memorize scratch_store (new_agent ''A'' False False) 7 (Some (ActionsStr ''foo''))))
     ''scratchpad'' = Some [''f'', ''o'', ''o''] \<and>
   DAList.lookup
     (memorized (memorize scratch_store (new_agent ''A'' False False) 7 (Some (ActionsStr ''foo''))))
     ''scratchpad'' \<noteq> Some [''foo'']"
proof -
  have name: "stm_name (scratch_store 7) = ''scratchpad''"
    by (simp add: scratch_store_def)
  from memorize_string_actions [of scratch_store "new_agent ''A'' False False" 7 "''foo''"] name
  show ?thesis by simp
qed

section \<open>The loop and the stages of \<^verbatim>\<open>learn\<close>\<close>

lemma py_setattr_twice [simp]:
  "py_setattr (py_setattr ag n x) n y = py_setattr ag n y"
  by (cases ag) (simp add: py_setattr_def)

lemma update_same: "DAList.lookup d k = Some v \<Longrightarrow> DAList.update k v d = d"
  by (simp add: alist_eq_iff update.rep_eq lookup.rep_eq update_triv)

lemma py_setattr_same: "py_getattr ag n = Some v \<Longrightarrow> py_setattr ag n v = ag"
  by (cases ag) (simp add: py_setattr_def py_getattr_def update_same)

lemma py_getattr_setattr [simp]:
  "py_getattr (py_setattr ag n v) n' = (if n' = n then Some v else py_getattr ag n')"
  by (simp add: py_getattr_def lookup_update)

lemma attached_Nil: "attached mm m M [] D0 I0 D0 I0"
  by (simp add: attached_def)

lemma attached_Cons_type:
  "placement mm m M h = Some (True, f) \<Longrightarrow>
   attached mm m M ms (DAList.update h f D0) I0 D I \<Longrightarrow>
   attached mm m M (h # ms) D0 I0 D I"
  unfolding attached_def by (auto simp: lookup_update)

lemma attached_Cons_instance:
  "placement mm m M h = Some (False, f) \<Longrightarrow>
   attached mm m M ms D0 (DAList.update h f I0) D I \<Longrightarrow>
   attached mm m M (h # ms) D0 I0 D I"
  unfolding attached_def by (auto simp: lookup_update)

lemma attach_stops:
  "py_getattr ag T = Some (ActorV a) \<Longrightarrow> r = Raised e (w, ag) \<Longrightarrow>
   \<exists>D I. state_of r =
            (w\<lparr>class_dicts := (class_dicts w)(actor_type a := D)\<rparr>,
             py_setattr ag T (ActorV (a\<lparr>actor_dict := I\<rparr>))) \<and>
         (raised r = None \<longrightarrow> P D I)"
  apply (rule_tac x = "class_dicts w (actor_type a)" in exI)
  apply (rule_tac x = "actor_dict a" in exI)
  apply (simp add: py_setattr_same)
  done

lemma attach_effect:
  "py_getattr ag T = Some (ActorV a) \<Longrightarrow>
   \<exists>D I. state_of (attach mm M T ms (w, ag)) =
            (w\<lparr>class_dicts := (class_dicts w)(actor_type a := D)\<rparr>,
             py_setattr ag T (ActorV (a\<lparr>actor_dict := I\<rparr>))) \<and>
         (raised (attach mm M T ms (w, ag)) = None \<longrightarrow>
            attached mm (manager w) M ms (class_dicts w (actor_type a)) (actor_dict a) D I)"
proof (induction ms arbitrary: w ag a)
  case Nil
  then show ?case
    apply (rule_tac x = "class_dicts w (actor_type a)" in exI)
    apply (rule_tac x = "actor_dict a" in exI)
    apply (simp add: py_setattr_same attached_Nil)
    done
next
  case (Cons h ms)
  show ?case
  proof (cases "get_module_attr mm (manager w) M h")
    case (Inl e)
    then have "attach mm M T (h # ms) (w, ag) = Raised e (w, ag)" by simp
    from attach_stops [OF Cons.prems this] show ?thesis .
  next
    case (Inr f)
    note f = this
    show ?thesis
    proof (cases "py_name f")
      case (Inl e)
      with f have "attach mm M T (h # ms) (w, ag) = Raised e (w, ag)" by simp
      from attach_stops [OF Cons.prems this] show ?thesis .
    next
      case (Inr nm)
      note nm = this
      have pl: "placement mm (manager w) M h = Some (contains_dunder nm, f)"
        by (simp add: placement_def f nm)
      show ?thesis
      proof (cases "contains_dunder nm")
        case True
        define w1 where "w1 = w\<lparr>class_dicts := (class_dicts w)(actor_type a :=
                      DAList.update h f (class_dicts w (actor_type a)))\<rparr>"
        have step: "attach mm M T (h # ms) (w, ag) = attach mm M T ms (w1, ag)"
          using Cons.prems f nm True by (simp add: w1_def)
        from Cons.IH [OF Cons.prems, of w1]
        obtain D I where
          st: "state_of (attach mm M T ms (w1, ag)) =
                 (w1\<lparr>class_dicts := (class_dicts w1)(actor_type a := D)\<rparr>,
                  py_setattr ag T (ActorV (a\<lparr>actor_dict := I\<rparr>)))" and
          ok: "raised (attach mm M T ms (w1, ag)) = None \<longrightarrow>
                 attached mm (manager w1) M ms (class_dicts w1 (actor_type a)) (actor_dict a) D I"
          by (elim exE conjE) (rule that, assumption+)
        have A: "state_of (attach mm M T (h # ms) (w, ag)) =
                (w\<lparr>class_dicts := (class_dicts w)(actor_type a := D)\<rparr>,
                 py_setattr ag T (ActorV (a\<lparr>actor_dict := I\<rparr>)))"
          using st unfolding step by (simp add: w1_def)
        have B: "raised (attach mm M T (h # ms) (w, ag)) = None \<longrightarrow>
            attached mm (manager w) M (h # ms) (class_dicts w (actor_type a)) (actor_dict a) D I"
          using ok pl True unfolding step by (auto simp: w1_def intro: attached_Cons_type)
        show ?thesis
          by (rule exI [of _ D], rule exI [of _ I], rule conjI [OF A B])
      next
        case False
        define a1 where "a1 = a\<lparr>actor_dict := DAList.update h f (actor_dict a)\<rparr>"
        define ag1 where "ag1 = py_setattr ag T (ActorV a1)"
        have step: "attach mm M T (h # ms) (w, ag) = attach mm M T ms (w, ag1)"
          using Cons.prems f nm False by (simp add: a1_def ag1_def)
        have g1: "py_getattr ag1 T = Some (ActorV a1)" by (simp add: ag1_def)
        from Cons.IH [OF g1, of w]
        obtain D I where
          st: "state_of (attach mm M T ms (w, ag1)) =
                 (w\<lparr>class_dicts := (class_dicts w)(actor_type a1 := D)\<rparr>,
                  py_setattr ag1 T (ActorV (a1\<lparr>actor_dict := I\<rparr>)))" and
          ok: "raised (attach mm M T ms (w, ag1)) = None \<longrightarrow>
                 attached mm (manager w) M ms (class_dicts w (actor_type a1)) (actor_dict a1) D I"
          by (elim exE conjE) (rule that, assumption+)
        have A: "state_of (attach mm M T (h # ms) (w, ag)) =
                (w\<lparr>class_dicts := (class_dicts w)(actor_type a := D)\<rparr>,
                 py_setattr ag T (ActorV (a\<lparr>actor_dict := I\<rparr>)))"
          using st unfolding step by (simp add: a1_def ag1_def)
        have B: "raised (attach mm M T (h # ms) (w, ag)) = None \<longrightarrow>
            attached mm (manager w) M (h # ms) (class_dicts w (actor_type a)) (actor_dict a) D I"
          using ok pl False unfolding step by (auto simp: a1_def intro: attached_Cons_instance)
        show ?thesis
          by (rule exI [of _ D], rule exI [of _ I], rule conjI [OF A B])
      qed
    qed
  qed
qed


lemma learn_resolve_fail:
  "resolve_module hub (task_name t) module = Inl e \<Longrightarrow>
   learn hub mm (w, ag) t module f kw = Raised e (w, ag)"
  by (simp add: learn_def)

lemma learn_load_fail:
  "resolve_module hub (task_name t) module = Inr M \<Longrightarrow>
   load_module mm (manager w) M f (allow_services ag) (allow_executors ag) kw = Raised e m \<Longrightarrow>
   learn hub mm (w, ag) t module f kw = Raised e (w\<lparr>manager := m\<rparr>, ag)"
  by (simp add: learn_def services_enabled_def executors_enabled_def)

lemma learn_after_load:
  assumes res: "resolve_module hub (task_name t) module = Inr M"
    and load: "load_module mm (manager w) M f (allow_services ag) (allow_executors ag) kw = Returned m"
  shows "\<exists>D I.
     (\<exists>e. learn hub mm (w, ag) t module f kw =
            Raised e (learned_world w m D, learned_agent w ag (task_name t) I)) \<or>
     (\<exists>acts. hub_api hub (task_name t) = Inr acts \<and>
        attached mm m M acts DAList.empty DAList.empty D I \<and>
        learn hub mm (w, ag) t module f kw =
          Returned (learned_world w m D,
                    set_known (DAList.update (task_name t) acts (known ag))
                      (learned_agent w ag (task_name t) I)))"
proof (cases "hub_api hub (task_name t)")
  case (Inl e)
  have "learn hub mm (w, ag) t module f kw =
          Raised e (learned_world w m DAList.empty, learned_agent w ag (task_name t) DAList.empty)"
    using res load Inl
    by (simp add: learn_def services_enabled_def executors_enabled_def new_actor_class_def
        new_actor_def learned_world_def learned_agent_def)
  then show ?thesis by blast
next
  case (Inr acts)
  define w1 where "w1 = learned_world w m DAList.empty"
  define ag1 where "ag1 = learned_agent w ag (task_name t) DAList.empty"
  define a1 where "a1 = new_actor (class_count w)"
  have g1: "py_getattr ag1 (task_name t) = Some (ActorV a1)"
    by (simp add: ag1_def a1_def learned_agent_def new_actor_def)
  have unfold: "learn hub mm (w, ag) t module f kw =
      (case attach mm M (task_name t) acts (w1, ag1) of
         Raised e s2 \<Rightarrow> Raised e s2
       | Returned (w2, self2) \<Rightarrow>
           Returned (w2, set_known (DAList.update (task_name t) acts (known self2)) self2))"
    using res load Inr
    by (simp add: learn_def services_enabled_def executors_enabled_def new_actor_class_def
        new_actor_def learned_world_def learned_agent_def w1_def ag1_def
        split: outcome.split prod.split)
  from attach_effect [OF g1, of mm M acts w1]
  obtain D I where
    st: "state_of (attach mm M (task_name t) acts (w1, ag1)) =
           (w1\<lparr>class_dicts := (class_dicts w1)(actor_type a1 := D)\<rparr>,
            py_setattr ag1 (task_name t) (ActorV (a1\<lparr>actor_dict := I\<rparr>)))" and
    ok: "raised (attach mm M (task_name t) acts (w1, ag1)) = None \<longrightarrow>
           attached mm (manager w1) M acts (class_dicts w1 (actor_type a1)) (actor_dict a1) D I"
    by (elim exE conjE) (rule that, assumption+)
  have w': "w1\<lparr>class_dicts := (class_dicts w1)(actor_type a1 := D)\<rparr> = learned_world w m D"
    by (simp add: w1_def a1_def learned_world_def new_actor_def)
  have ag': "py_setattr ag1 (task_name t) (ActorV (a1\<lparr>actor_dict := I\<rparr>)) =
               learned_agent w ag (task_name t) I"
    by (simp add: ag1_def a1_def learned_agent_def new_actor_def)
  show ?thesis
  proof (cases "attach mm M (task_name t) acts (w1, ag1)")
    case (Raised e s2)
    with st have "s2 = (learned_world w m D, learned_agent w ag (task_name t) I)"
      by (simp add: w' ag')
    with Raised unfold
    have "learn hub mm (w, ag) t module f kw =
            Raised e (learned_world w m D, learned_agent w ag (task_name t) I)"
      by simp
    then show ?thesis by blast
  next
    case (Returned s2)
    with st have s2: "s2 = (learned_world w m D, learned_agent w ag (task_name t) I)"
      by (simp add: w' ag')
    from Returned ok have "attached mm m M acts DAList.empty DAList.empty D I"
      by (simp add: w1_def a1_def learned_world_def new_actor_def)
    moreover from Returned unfold s2
    have "learn hub mm (w, ag) t module f kw =
            Returned (learned_world w m D,
                      set_known (DAList.update (task_name t) acts (known ag))
                        (learned_agent w ag (task_name t) I))"
      by (simp add: learned_agent_def)
    ultimately show ?thesis using Inr by blast
  qed
qed

lemma learned_agent_sel [simp]:
  "agent_name (learned_agent w ag T I) = agent_name ag"
  "known (learned_agent w ag T I) = known ag"
  "memorized (learned_agent w ag T I) = memorized ag"
  "allow_services (learned_agent w ag T I) = allow_services ag"
  "allow_executors (learned_agent w ag T I) = allow_executors ag"
  "subagents (learned_agent w ag T I) = subagents ag"
  "py_getattr (learned_agent w ag T I) n =
     (if n = T then Some (ActorV \<lparr>actor_type = class_count w, actor_dict = I\<rparr>)
      else py_getattr ag n)"
  by (simp_all add: learned_agent_def)

lemma learned_world_sel [simp]:
  "manager (learned_world w m D) = m"
  "class_count (learned_world w m D) = Suc (class_count w)"
  "class_dicts (learned_world w m D) c = (if c = class_count w then D else class_dicts w c)"
  by (simp_all add: learned_world_def)

lemma py_getattr_set_known [simp]: "py_getattr (set_known d ag) n = py_getattr ag n"
  by (simp add: py_getattr_def)

lemma learn_returned_cases:
  assumes ret: "learn hub mm (w, ag) t module f kw = Returned (w', ag')"
  obtains M m acts D I where
    "resolve_module hub (task_name t) module = Inr M"
    "load_module mm (manager w) M f (allow_services ag) (allow_executors ag) kw = Returned m"
    "hub_api hub (task_name t) = Inr acts"
    "attached mm m M acts DAList.empty DAList.empty D I"
    "w' = learned_world w m D"
    "ag' = set_known (DAList.update (task_name t) acts (known ag))
             (learned_agent w ag (task_name t) I)"
proof (cases "resolve_module hub (task_name t) module")
  case (Inl e)
  from learn_resolve_fail [where mm=mm and w=w and ag=ag and f=f and kw=kw, OF this] ret show ?thesis by simp
next
  case (Inr M)
  note res = this
  show ?thesis
  proof (cases "load_module mm (manager w) M f (allow_services ag) (allow_executors ag) kw")
    case (Raised e m)
    from learn_load_fail [OF res this] ret show ?thesis by simp
  next
    case (Returned m)
    from learn_after_load [OF res Returned] ret
    obtain D I acts where
      "hub_api hub (task_name t) = Inr acts"
      "attached mm m M acts DAList.empty DAList.empty D I"
      "Returned (w', ag') =
          Returned (learned_world w m D,
                    set_known (DAList.update (task_name t) acts (known ag))
                      (learned_agent w ag (task_name t) I))"
      by auto
    with res Returned that show ?thesis by simp
  qed
qed



lemma returned_state: "raised r = None \<Longrightarrow> r = Returned (fst (state_of r), snd (state_of r))"
  by (cases r) simp_all


lemmas echo_defs =
  learn_def resolve_module_def spec_manager_def spec_load_module_def spec_get_module_attr_def
  echo_hub_def echo_world_def net_world_def echo_decls_def echo_methods_def dict_of_def
  novice_def new_actor_class_def new_actor_def has_key_lookup lookup_update
  services_enabled_def executors_enabled_def py_getattr_def bound_actor_def
  type_level_def instance_level_def known_tasks_def

section \<open>Resolving the module name\<close>

lemma learn_no_modules_none:
  "hub_registered_modules hub (task_name t) = Inr None \<Longrightarrow>
   learn hub mm (w, ag) t None f kw = Raised ModuleForTaskNotFound (w, ag)"
  by (simp add: learn_def resolve_module_def)

lemma learn_no_modules_empty:
  "hub_registered_modules hub (task_name t) = Inr (Some []) \<Longrightarrow>
   learn hub mm (w, ag) t None f kw = Raised IndexError (w, ag)"
  by (simp add: learn_def resolve_module_def)

text \<open>
  Claim C1. The claim has \<^verbatim>\<open>learn(T)\<close> without a module raise
  \<^verbatim>\<open>ModuleForTaskNotFound\<close> for every task for which the task hub reports no registered
  module. The guard of line 114 tests \<^verbatim>\<open>modules is None\<close> only. For the task \<^verbatim>\<open>Idle\<close>,
  whose list of registered modules is the empty list, \<^verbatim>\<open>learn('Idle')\<close> gets past the
  guard and raises \<^verbatim>\<open>IndexError\<close> at \<^verbatim>\<open>modules[0]\<close>; the world and the agent are as
  before, so the task is not added to \<^verbatim>\<open>known_tasks\<close>.
\<close>

theorem learn_empty_module_list:
  "hub_registered_modules echo_hub ''Idle'' = Inr (Some []) \<and>
   learn echo_hub spec_manager (echo_world, novice) (ByName ''Idle'') None False [] =
     Raised IndexError (echo_world, novice) \<and>
   known_tasks novice = []"
  by (simp add: echo_defs)

text \<open>
  Claim C3. For every task with at least one registered module, \<^verbatim>\<open>learn(T)\<close> without a
  module argument resolves the module to element 0 of \<^verbatim>\<open>registered_modules(T)\<close>: it
  behaves in every respect as \<^verbatim>\<open>learn(T, module=that element)\<close> does, and the state of
  the module manager after the call is the one that \<^verbatim>\<open>load_module\<close>, called for that
  module with \<^verbatim>\<open>force_relearn\<close>, the agent's two flags and the keyword arguments, has
  left.
\<close>

theorem learn_default_module:
  assumes reg: "hub_registered_modules hub (task_name t) = Inr (Some ms)"
    and ne: "ms \<noteq> []"
  shows
  "resolve_module hub (task_name t) None = Inr (ms ! 0) \<and>
   learn hub mm (w, ag) t None f kw = learn hub mm (w, ag) t (Some (ms ! 0)) f kw \<and>
   manager (fst (state_of (learn hub mm (w, ag) t None f kw))) =
     state_of (load_module mm (manager w) (ms ! 0) f
                 (services_enabled ag) (executors_enabled ag) kw)"
proof -
  from ne obtain m0 rest where ms: "ms = m0 # rest" by (cases ms) auto
  have res: "resolve_module hub (task_name t) None = Inr (ms ! 0)"
    using reg by (simp add: resolve_module_def ms)
  have same: "learn hub mm (w, ag) t None f kw = learn hub mm (w, ag) t (Some (ms ! 0)) f kw"
    using reg by (simp add: learn_def resolve_module_def ms)
  have "manager (fst (state_of (learn hub mm (w, ag) t None f kw))) =
     state_of (load_module mm (manager w) (ms ! 0) f (allow_services ag) (allow_executors ag) kw)"
  proof (cases "load_module mm (manager w) (ms ! 0) f (allow_services ag) (allow_executors ag) kw")
    case (Raised e m)
    from learn_load_fail [OF res this] Raised show ?thesis by simp
  next
    case (Returned m)
    from learn_after_load [OF res Returned] Returned show ?thesis by auto
  qed
  with res same show ?thesis by (simp add: services_enabled_def executors_enabled_def)
qed

text \<open>
  Claim C3, at the task \<^verbatim>\<open>Echo\<close>, whose registered modules are \<^verbatim>\<open>EchoImpl\<close> and
  \<^verbatim>\<open>NetEcho\<close> in this order: \<^verbatim>\<open>learn('Echo')\<close> resolves to \<^verbatim>\<open>EchoImpl\<close>, and afterwards
  the registry has an instance of \<^verbatim>\<open>EchoImpl\<close> in its cache and none of \<^verbatim>\<open>NetEcho\<close>.
\<close>

theorem learn_default_module_witness:
  "hub_registered_modules echo_hub (task_name (ByName ''Echo'')) =
     Inr (Some [''EchoImpl'', ''NetEcho'']) \<and>
   [''EchoImpl'', ''NetEcho''] \<noteq> [] \<and>
   resolve_module echo_hub ''Echo'' None = Inr ''EchoImpl'' \<and>
   learn echo_hub spec_manager (echo_world, novice) (ByName ''Echo'') None False [] =
     learn echo_hub spec_manager (echo_world, novice) (ByName ''Echo'') (Some ''EchoImpl'') False [] \<and>
   has_key
     (cache (manager (fst (state_of
        (learn echo_hub spec_manager (echo_world, novice) (ByName ''Echo'') None False [])))))
     ''EchoImpl'' \<and>
   \<not> has_key
     (cache (manager (fst (state_of
        (learn echo_hub spec_manager (echo_world, novice) (ByName ''Echo'') None False [])))))
     ''NetEcho''"
proof -
  have reg: "hub_registered_modules echo_hub (task_name (ByName ''Echo'')) =
               Inr (Some [''EchoImpl'', ''NetEcho''])"
    by (simp add: echo_hub_def)
  have ne: "[''EchoImpl'', ''NetEcho''] \<noteq> []" by simp
  have loaded: "state_of (load_module spec_manager (manager echo_world) ''EchoImpl'' False
                   (services_enabled novice) (executors_enabled novice) []) =
                \<lparr>declared = echo_decls,
                  cache = DAList.update ''EchoImpl'' echo_methods DAList.empty\<rparr>"
    by (simp add: spec_manager_def spec_load_module_def echo_world_def echo_decls_def
        dict_of_def has_key_lookup lookup_update novice_def services_enabled_def
        executors_enabled_def)
  note th = learn_default_module [OF reg ne, of spec_manager echo_world novice False "[]"]
  have c1: "resolve_module echo_hub ''Echo'' None = Inr ''EchoImpl''"
    using th [THEN conjunct1] by simp
  have c2: "learn echo_hub spec_manager (echo_world, novice) (ByName ''Echo'') None False [] =
         learn echo_hub spec_manager (echo_world, novice) (ByName ''Echo'') (Some ''EchoImpl'') False []"
    using th [THEN conjunct2, THEN conjunct1] by simp
  have c3: "manager (fst (state_of
           (learn echo_hub spec_manager (echo_world, novice) (ByName ''Echo'') None False []))) =
         \<lparr>declared = echo_decls, cache = DAList.update ''EchoImpl'' echo_methods DAList.empty\<rparr>"
    using th [THEN conjunct2, THEN conjunct2] by (simp add: loaded)
  have c4: "has_key
     (cache (manager (fst (state_of
        (learn echo_hub spec_manager (echo_world, novice) (ByName ''Echo'') None False [])))))
     ''EchoImpl'' \<and>
   \<not> has_key
     (cache (manager (fst (state_of
        (learn echo_hub spec_manager (echo_world, novice) (ByName ''Echo'') None False [])))))
     ''NetEcho''"
    unfolding c3 by (simp add: has_key_lookup lookup_update)
  from reg ne c1 c2 c4 show ?thesis by blast
qed

section \<open>A call that raises\<close>




section \<open>The permission gate\<close>





section \<open>A call that returns\<close>



text \<open>
  Claim C6, refuted as stated. In \<^verbatim>\<open>AliasEcho\<close> the attribute \<^verbatim>\<open>reply\<close> is the function
  whose \<^verbatim>\<open>__name__\<close> is \<^verbatim>\<open>__call__\<close>. The action name \<^verbatim>\<open>reply\<close> has no double
  underscore, yet \<^verbatim>\<open>learn('Echo', module='AliasEcho')\<close> attaches it to the Actor's class
  and not to the Actor: line 138 tests the \<^verbatim>\<open>__name__\<close> of the fetched object, not the
  action name.
\<close>

theorem learn_alias_on_type:
  "raised (learn echo_hub spec_manager (echo_world, novice) (ByName ''Echo'')
             (Some ''AliasEcho'') False []) = None \<and>
   \<not> contains_dunder ''reply'' \<and>
   type_level
     (fst (state_of (learn echo_hub spec_manager (echo_world, novice) (ByName ''Echo'')
                       (Some ''AliasEcho'') False [])))
     (the (bound_actor
        (snd (state_of (learn echo_hub spec_manager (echo_world, novice) (ByName ''Echo'')
                          (Some ''AliasEcho'') False []))) ''Echo''))
     ''reply'' = Some (Fn ''__call__'' 4) \<and>
   instance_level
     (the (bound_actor
        (snd (state_of (learn echo_hub spec_manager (echo_world, novice) (ByName ''Echo'')
                          (Some ''AliasEcho'') False []))) ''Echo''))
     ''reply'' = None"
  by (simp add: echo_defs)

text \<open>
  Claim C6, amended. When \<^verbatim>\<open>learn\<close> returns, the attribute named after the task is an
  Actor of a class that this call has created (no Actor bound before has it). For every
  action name of the task's \<^verbatim>\<open>api\<close>, the object fetched from the module is attached
  under that name to the class, and not to the instance, when the object's own
  \<^verbatim>\<open>__name__\<close> contains two consecutive underscores, and to the instance, and not to the
  class, otherwise; nothing else is attached. The dictionaries of all other classes and
  all other attributes of the agent are as before, so no Actor bound for another task or
  by another agent shows the attachment.
\<close>

theorem learn_attachment_levels:
  assumes ret: "learn hub mm (w, ag) t module f kw = Returned (w', ag')"
  shows
  "\<exists>a M acts.
     resolve_module hub (task_name t) module = Inr M \<and>
     hub_api hub (task_name t) = Inr acts \<and>
     bound_actor ag' (task_name t) = Some a \<and>
     actor_type a = class_count w \<and> class_count w' = Suc (class_count w) \<and>
     (\<forall>method \<in> set acts.
        \<exists>fn nm. get_module_attr mm (manager w') M method = Inr fn \<and> py_name fn = Inr nm \<and>
          (if contains_dunder nm
           then type_level w' a method = Some fn \<and> instance_level a method = None
           else instance_level a method = Some fn \<and> type_level w' a method = None)) \<and>
     (\<forall>n. n \<notin> set acts \<longrightarrow> type_level w' a n = None \<and> instance_level a n = None) \<and>
     (\<forall>c. c \<noteq> class_count w \<longrightarrow> class_dicts w' c = class_dicts w c) \<and>
     (\<forall>n. n \<noteq> task_name t \<longrightarrow> py_getattr ag' n = py_getattr ag n)"
  using ret
proof (cases rule: learn_returned_cases)
  case (1 M m acts D I)
  let ?a = "\<lparr>actor_type = class_count w, actor_dict = I\<rparr>"
  have each: "\<exists>fn nm. get_module_attr mm (manager w') M act = Inr fn \<and> py_name fn = Inr nm \<and>
          (if contains_dunder nm
           then type_level w' ?a act = Some fn \<and> instance_level ?a act = None
           else instance_level ?a act = Some fn \<and> type_level w' ?a act = None)"
    if "act \<in> set acts" for act
  proof -
    from 1(4) that have "placement mm m M act \<noteq> None"
      by (simp add: attached_def)
    then obtain fn nm where
      fn: "get_module_attr mm m M act = Inr fn" and nm: "py_name fn = Inr nm"
      by (auto simp: placement_def split: sum.splits)
    then have pl: "placement mm m M act = Some (contains_dunder nm, fn)"
      by (simp add: placement_def)
    from 1(4) have
      D: "DAList.lookup D act =
            (if act \<in> set acts \<and> (\<exists>f. placement mm m M act = Some (True, f))
             then map_option snd (placement mm m M act) else DAList.lookup DAList.empty act)"
      and I: "DAList.lookup I act =
            (if act \<in> set acts \<and> (\<exists>f. placement mm m M act = Some (False, f))
             then map_option snd (placement mm m M act) else DAList.lookup DAList.empty act)"
      by (simp_all add: attached_def)
    show ?thesis
      using fn nm pl D I that 1(5)
      by (auto simp: type_level_def instance_level_def)
  qed
  have none: "type_level w' ?a n = None \<and> instance_level ?a n = None" if "n \<notin> set acts" for n
    using 1(4) 1(5) that by (simp add: attached_def type_level_def instance_level_def)
  show ?thesis
    apply (rule exI [of _ ?a])
    apply (rule exI [of _ M])
    apply (rule exI [of _ acts])
    using 1(1) 1(3) 1(5) 1(6) each none
    apply (simp add: bound_actor_def)
    done
qed

text \<open>
  Claim C6 as amended, at \<^verbatim>\<open>learn('Echo', module='EchoImpl')\<close>, where each function has
  the name of its action: \<^verbatim>\<open>__call__\<close> is on the new class 0 and not on the Actor,
  \<^verbatim>\<open>reply\<close> is on the Actor and not on the class, and class 1, which a later \<^verbatim>\<open>learn\<close>
  will create, has nothing attached.
\<close>

theorem learn_attachment_levels_witness:
  "learn echo_hub spec_manager (echo_world, novice) (ByName ''Echo'') (Some ''EchoImpl'') False [] =
     Returned
       (fst (state_of (learn echo_hub spec_manager (echo_world, novice) (ByName ''Echo'')
                         (Some ''EchoImpl'') False [])),
        snd (state_of (learn echo_hub spec_manager (echo_world, novice) (ByName ''Echo'')
                         (Some ''EchoImpl'') False []))) \<and>
   (\<exists>a. bound_actor
          (snd (state_of (learn echo_hub spec_manager (echo_world, novice) (ByName ''Echo'')
                            (Some ''EchoImpl'') False []))) ''Echo'' = Some a \<and>
        actor_type a = 0 \<and>
        type_level
          (fst (state_of (learn echo_hub spec_manager (echo_world, novice) (ByName ''Echo'')
                            (Some ''EchoImpl'') False []))) a ''__call__'' =
          Some (Fn ''__call__'' 2) \<and>
        instance_level a ''__call__'' = None \<and>
        instance_level a ''reply'' = Some (Fn ''reply'' 1) \<and>
        type_level
          (fst (state_of (learn echo_hub spec_manager (echo_world, novice) (ByName ''Echo'')
                            (Some ''EchoImpl'') False []))) a ''reply'' = None) \<and>
   class_dicts
     (fst (state_of (learn echo_hub spec_manager (echo_world, novice) (ByName ''Echo'')
                       (Some ''EchoImpl'') False []))) 1 = class_dicts echo_world 1"
proof -
  define run where
    "run = learn echo_hub spec_manager (echo_world, novice) (ByName ''Echo'')
             (Some ''EchoImpl'') False []"
  have "raised run = None"
    by (simp add: run_def echo_defs)
  then have r: "run = Returned (fst (state_of run), snd (state_of run))"
    by (rule returned_state)
  have res: "resolve_module echo_hub (task_name (ByName ''Echo'')) (Some ''EchoImpl'') =
               Inr ''EchoImpl''"
    by (simp add: resolve_module_def)
  have acts: "hub_api echo_hub (task_name (ByName ''Echo'')) = Inr [''reply'', ''__call__'']"
    by (simp add: echo_hub_def)
  have m: "manager (fst (state_of run)) =
             \<lparr>declared = echo_decls,
               cache = DAList.update ''EchoImpl'' echo_methods DAList.empty\<rparr>"
    by (simp add: run_def echo_defs)
  have get_reply: "get_module_attr spec_manager (manager (fst (state_of run))) ''EchoImpl''
                     ''reply'' = Inr (Fn ''reply'' 1)"
    by (simp add: m spec_manager_def spec_get_module_attr_def echo_methods_def dict_of_def
        lookup_update)
  have get_call: "get_module_attr spec_manager (manager (fst (state_of run))) ''EchoImpl''
                     ''__call__'' = Inr (Fn ''__call__'' 2)"
    by (simp add: m spec_manager_def spec_get_module_attr_def echo_methods_def dict_of_def
        lookup_update)
  from learn_attachment_levels [OF r [unfolded run_def], folded run_def]
  obtain a M acts' where
    M: "resolve_module echo_hub (task_name (ByName ''Echo'')) (Some ''EchoImpl'') = Inr M" and
    a': "hub_api echo_hub (task_name (ByName ''Echo'')) = Inr acts'" and
    a: "bound_actor (snd (state_of run)) (task_name (ByName ''Echo'')) = Some a" and
    ty: "actor_type a = class_count echo_world" and
    each: "\<forall>method \<in> set acts'.
        \<exists>fn nm. get_module_attr spec_manager (manager (fst (state_of run))) M method = Inr fn \<and>
          py_name fn = Inr nm \<and>
          (if contains_dunder nm
           then type_level (fst (state_of run)) a method = Some fn \<and>
                instance_level a method = None
           else instance_level a method = Some fn \<and>
                type_level (fst (state_of run)) a method = None)" and
    frame: "\<forall>c. c \<noteq> class_count echo_world \<longrightarrow>
              class_dicts (fst (state_of run)) c = class_dicts echo_world c"
    by (elim exE conjE) (rule that, assumption+)
  from M res have M': "M = ''EchoImpl''" by simp
  from a' acts have acts': "acts' = [''reply'', ''__call__'']" by simp
  from each have "type_level (fst (state_of run)) a ''__call__'' = Some (Fn ''__call__'' 2) \<and>
        instance_level a ''__call__'' = None \<and>
        instance_level a ''reply'' = Some (Fn ''reply'' 1) \<and>
        type_level (fst (state_of run)) a ''reply'' = None"
    by (simp add: M' acts' get_reply get_call)
  moreover from ty have "actor_type a = 0" by (simp add: echo_world_def)
  moreover from frame have "class_dicts (fst (state_of run)) 1 = class_dicts echo_world 1"
    by (simp add: echo_world_def)
  ultimately show ?thesis
    using r a unfolding run_def by auto
qed

end
